theory Spec2Isabelle
  imports Complex_Main "HOL-Library.Multiset"
begin

section \<open>Sub-tomogram extraction and half-set averaging (parakeet.analyse.\_extract)\<close>

text \<open>
  A shallow embedding of \<^verbatim>\<open>_extract_Config\<close> and
  \<^verbatim>\<open>average_extracted_particles\<close>.

  Conventions of the embedding:
  \<^item> array elements and physical lengths are real numbers; the rounding of the
    32-bit floating point arrays is outside the model;
  \<^item> an n-dimensional array is its shape together with its elements in row-major order;
  \<^item> every \<^verbatim>\<open>assert\<close> and every exception is a value of type \<open>error\<close>, and a
    function that can raise returns \<open>error + 'a\<close>;
  \<^item> the state of a random number generator is passed explicitly.
\<close>

subsection \<open>Errors\<close>

text \<open>The assertions of the module, one name per \<^verbatim>\<open>assert\<close> statement, in source order.\<close>

datatype assertion =
    VoxelSizePositive          \<comment> \<open>\<^verbatim>\<open>assert voxel_size[0] > 0\<close>\<close>
  | VoxelSizeXY                \<comment> \<open>\<^verbatim>\<open>assert voxel_size[0] == voxel_size[1]\<close>\<close>
  | VoxelSizeXZ                \<comment> \<open>\<^verbatim>\<open>assert voxel_size[0] == voxel_size[2]\<close>\<close>
  | OneMolecule                \<comment> \<open>\<^verbatim>\<open>assert sample.number_of_molecules == 1\<close>\<close>
  | PositionsOrientations      \<comment> \<open>\<^verbatim>\<open>assert len(positions) == len(orientations)\<close>\<close>
  | HalfNumParticlesPositive   \<comment> \<open>\<^verbatim>\<open>assert half_num_particles > 0\<close>\<close>
  | NumParticlesWithinStore    \<comment> \<open>\<^verbatim>\<open>assert num_particles <= data.shape[0]\<close>\<close>

datatype error =
    AssertionError assertion
  | ValueError                 \<comment> \<open>unpacking an empty \<^verbatim>\<open>zip(*...)\<close> into two names\<close>
  | IndexError                 \<comment> \<open>reading a row the dataset does not have\<close>
  | DatasetShapeError          \<comment> \<open>a dataset with a negative extent, or a write of another shape\<close>
  | OutOfBoundsError           \<comment> \<open>an extraction window outside the volume\<close>

subsection \<open>Data\<close>

type_synonym vec3 = "real \<times> real \<times> real"

type_synonym shape3 = "nat \<times> nat \<times> nat"

definition shape_size :: "shape3 \<Rightarrow> nat" where
  "shape_size s = (case s of (a, b, c) \<Rightarrow> a * b * c)"

text \<open>
  The particle file: \<^verbatim>\<open>handle["voxel_size"]\<close> and the dataset \<^verbatim>\<open>handle["data"]\<close> of
  shape \<open>(N,) + cube_shape\<close>, one row per particle.
\<close>

record particle_store =
  voxel_size :: vec3
  cube_shape :: shape3
  data :: "real list list"

text \<open>A dataset holds \<open>shape_size\<close> elements in every row.\<close>

definition store_wf :: "particle_store \<Rightarrow> bool" where
  "store_wf st = list_all (\<lambda>c. length c = shape_size (cube_shape st)) (data st)"

text \<open>An averaged volume as written with \<^verbatim>\<open>mrcfile.new\<close>: the data and the voxel size.\<close>

record half_map =
  map_shape :: shape3
  map_data :: "real list"
  map_voxel_size :: vec3

text \<open>
  The two process-wide generators: the one of Python's \<^verbatim>\<open>random\<close> module, whose state
  after \<^verbatim>\<open>random.seed(s)\<close> is a function of \<open>s\<close> and is represented by \<open>s\<close>, and
  the one of \<^verbatim>\<open>numpy.random\<close>, of an arbitrary state type.
\<close>

record 'g world =
  py_random :: int
  np_random :: 'g

definition random_seed :: "int \<Rightarrow> 'g world \<Rightarrow> 'g world" where
  "random_seed s w = w\<lparr>py_random := s\<rparr>"

text \<open>The statement \<^verbatim>\<open>random.seed(0)\<close> executed when the module is imported.\<close>

definition module_import :: "'g world \<Rightarrow> 'g world" where
  "module_import w = random_seed 0 w"

subsection \<open>average\_extracted\_particles\<close>

text \<open>
  \<^verbatim>\<open>np.random.choice(range(N), size=k, replace=False)\<close> belongs to numpy and is a
  parameter \<open>choice g N k\<close> of the model: from the generator state \<open>g\<close> it returns the
  sample and the next state.
\<close>

type_synonym 'g choice = "'g \<Rightarrow> nat \<Rightarrow> nat \<Rightarrow> nat list \<times> 'g"


definition effective_num_particles :: "int option \<Rightarrow> particle_store \<Rightarrow> int" where
  "effective_num_particles num_particles st =
     (case num_particles of
        None \<Rightarrow> int (length (data st))
      | Some n \<Rightarrow> if n \<le> 0 then int (length (data st)) else n)"

text \<open>Lines 199 to 213: the two assertions, the draw and the split of the indices.\<close>

definition draw_indices ::
  "'g choice \<Rightarrow> 'g \<Rightarrow> particle_store \<Rightarrow> int option \<Rightarrow> error + ((nat list \<times> nat list) \<times> 'g)" where
  "draw_indices choice g st num_particles =
     (let num_particles = effective_num_particles num_particles st;
          half_num_particles = num_particles div 2
      in if \<not> half_num_particles > 0 then Inl (AssertionError HalfNumParticlesPositive)
         else if \<not> num_particles \<le> int (length (data st))
         then Inl (AssertionError NumParticlesWithinStore)
         else (case choice g (length (data st)) (nat num_particles) of
                 (indices, g') \<Rightarrow>
                   Inr ((take (nat half_num_particles) indices,
                         drop (nat half_num_particles) indices), g')))"

text \<open>
  The inner loop of lines 218 to 224 for one half: \<^verbatim>\<open>half[half_index] += data[particle_index]\<close>
  and \<^verbatim>\<open>num[half_index] += 1\<close>.
\<close>

fun sum_particles :: "real list list \<Rightarrow> real list \<times> nat \<Rightarrow> nat list \<Rightarrow> error + (real list \<times> nat)" where
  "sum_particles d (half, num) [] = Inr (half, num)"
| "sum_particles d (half, num) (particle_index # rest) =
     (if particle_index < length d
      then sum_particles d (map2 (+) half (d ! particle_index), num + 1) rest
      else Inl IndexError)"

text \<open>Lines 229 to 232: \<^verbatim>\<open>if num[k] > 0: half[k] = half[k] / num[k]\<close>.\<close>

definition divide_half :: "real list \<times> nat \<Rightarrow> real list" where
  "divide_half h = (case h of (half, num) \<Rightarrow>
     if num > 0 then map (\<lambda>v. v / real num) half else half)"

definition save_half :: "particle_store \<Rightarrow> real list \<Rightarrow> half_map" where
  "save_half st half = \<lparr>map_shape = cube_shape st, map_data = half, map_voxel_size = voxel_size st\<rparr>"

definition average_extracted_particles ::
  "'g choice \<Rightarrow> 'g world \<Rightarrow> particle_store \<Rightarrow> int option
     \<Rightarrow> error + ((half_map \<times> half_map) \<times> 'g world)" where
  "average_extracted_particles choice w st num_particles =
     (case draw_indices choice (np_random w) st num_particles of
        Inl e \<Rightarrow> Inl e
      | Inr ((indices1, indices2), g') \<Rightarrow>
          (let zeros = replicate (shape_size (cube_shape st)) 0
           in case sum_particles (data st) (zeros, 0) indices1 of
                Inl e \<Rightarrow> Inl e
              | Inr half1 \<Rightarrow>
                  (case sum_particles (data st) (zeros, 0) indices2 of
                     Inl e \<Rightarrow> Inl e
                   | Inr half2 \<Rightarrow>
                       Inr ((save_half st (divide_half half1), save_half st (divide_half half2)),
                            w\<lparr>np_random := g'\<rparr>))))"

text \<open>
  A generator to run the model with: the state is a counter, the sample the first \<open>k\<close>
  elements of the population rotated by it. It draws without replacement, and its
  output depends on its state, which is all that is used of it.
\<close>

definition rot_choice :: "nat choice" where
  "rot_choice g N k = (take k (rotate g [0..<N]), Suc g)"

text \<open>
  What numpy promises of a draw without replacement: a sample of size \<open>k \<le> N\<close> has
  \<open>k\<close> distinct elements of the population \<open>0, \<dots>, N - 1\<close>.
\<close>

definition draws_without_replacement :: "'g choice \<Rightarrow> bool" where
  "draws_without_replacement choice =
     (\<forall>g N k. k \<le> N \<longrightarrow>
        length (fst (choice g N k)) = k \<and> distinct (fst (choice g N k))
        \<and> set (fst (choice g N k)) \<subseteq> {..<N})"

text \<open>A particle file of five cubes of shape \<open>(1, 1, 2)\<close>, for running the model.\<close>

definition demo_store :: particle_store where
  "demo_store = \<lparr>voxel_size = (2, 2, 2), cube_shape = (1, 1, 2),
     data = [[0, 10], [1, 11], [2, 12], [3, 13], [4, 14]]\<rparr>"

subsection \<open>\_extract\_Config\<close>

text \<open>
  The reconstruction opened with \<^verbatim>\<open>mrcfile.mmap\<close>: its voxel size, the shape of its
  data and the data, read by grid index.
\<close>

record tomo_file =
  tomo_voxel_size :: vec3
  tomo_shape :: shape3
  tomo_data :: "int \<Rightarrow> int \<Rightarrow> int \<Rightarrow> real"

text \<open>
  What the function reads of \<^verbatim>\<open>atoms.data\<close>: the minimum and the maximum of each
  coordinate column.
\<close>

record atoms =
  x_min :: real
  x_max :: real
  y_min :: real
  y_max :: real
  z_min :: real
  z_max :: real

text \<open>One item of \<^verbatim>\<open>sample.iter_molecules()\<close>; an orientation is opaque.\<close>

record 'o molecule =
  mol_atoms :: atoms
  positions :: "vec3 list"
  orientations :: "'o list"

text \<open>
  Modelled from the spec: the class \<^verbatim>\<open>Sample\<close> of \<^verbatim>\<open>parakeet.sample\<close>, which is not
  among the sources modelled here. A sample has a centre and its molecule species, each
  with the positions and orientations of its particles (sections 3 and 6);
  \<^verbatim>\<open>number_of_molecules\<close> is the number of species that \<^verbatim>\<open>iter_molecules()\<close> yields.
\<close>

record 'o sample =
  centre :: vec3
  molecules :: "(string \<times> 'o molecule) list"

definition number_of_molecules :: "'o sample \<Rightarrow> nat" where
  "number_of_molecules s = length (molecules s)"

text \<open>An array handed from a task to the coordinator.\<close>

record cube =
  cshape :: shape3
  cvals :: "real list"

text \<open>Lines 105 to 129: the half length of the extraction box.\<close>

definition half_length_of :: "int \<Rightarrow> atoms \<Rightarrow> vec3 \<Rightarrow> int" where
  "half_length_of particle_size a vsize =
     (case vsize of (vx, vy, vz) \<Rightarrow>
        let xmin = x_min a; xmax = x_max a;
            ymin = y_min a; ymax = y_max a;
            zmin = z_min a; zmax = z_max a;
            xc = (xmax + xmin) / 2;
            yc = (ymax + ymin) / 2;
            zc = (zmax + zmin) / 2
        in if particle_size = 0
           then \<lceil>sqrt (((xmin - xc) / vx)\<^sup>2 + ((ymin - yc) / vy)\<^sup>2 + ((zmin - zc) / vz)\<^sup>2)\<rceil> + 1
           else particle_size div 2)"

text \<open>
  Lines 142 to 145: \<^verbatim>\<open>zip(*sorted(zip(positions, orientations), key=lambda x: x[0][1]))\<close>.
  Python's sort is stable, as \<open>sort_key\<close> is; unpacking the transpose of an empty list
  into two names raises.
\<close>

definition sort_by_y :: "vec3 list \<Rightarrow> 'o list \<Rightarrow> error + (vec3 list \<times> 'o list)" where
  "sort_by_y ps os =
     (case sort_key (\<lambda>x. fst (snd (fst x))) (zip ps os) of
        [] \<Rightarrow> Inl ValueError
      | srt \<Rightarrow> Inr (map fst srt, map snd srt))"

text \<open>The argument tuple of one extraction task.\<close>

record 'o task =
  t_half_index :: nat
  t_position :: vec3
  t_orientation :: 'o
  t_centre :: vec3
  t_size :: vec3
  t_half_length :: int
  t_shape :: "int \<times> int \<times> int"
  t_voxel_size :: vec3
  t_tomogram :: tomo_file

text \<open>
  Modelled from the spec: \<^verbatim>\<open>_iterate_particles\<close> of
  \<^verbatim>\<open>parakeet.analyse._average_particles\<close>, which is not among the sources modelled here.
  Section 4.3: one stateless task per particle,
  \<^verbatim>\<open>task(index, position, orientation, centre, tomogram_size, half_length, shape, voxel_size)\<close>.
  The caller passes \<^verbatim>\<open>indices = [list(range(len(positions)))]\<close>, so every index read is
  in range.
\<close>

definition iterate_particles ::
  "nat list list \<Rightarrow> vec3 list \<Rightarrow> 'o list \<Rightarrow> vec3 \<Rightarrow> vec3 \<Rightarrow> int \<Rightarrow> int \<times> int \<times> int
     \<Rightarrow> vec3 \<Rightarrow> tomo_file \<Rightarrow> 'o task list" where
  "iterate_particles indices ps os c sz half_length shape vs tomogram =
     concat (map (\<lambda>(half_index, particle_indices).
        map (\<lambda>particle_index.
          \<lparr>t_half_index = half_index, t_position = ps ! particle_index,
           t_orientation = os ! particle_index, t_centre = c, t_size = sz,
           t_half_length = half_length, t_shape = shape, t_voxel_size = vs,
           t_tomogram = tomogram\<rparr>) particle_indices)
        (enumerate 0 indices))"

text \<open>
  Modelled from the spec: the VolumeSampler of section 4.2, the second half of
  \<^verbatim>\<open>_process_sub_tomo\<close>. It copies the window \<open>[centre - half_length, centre + half_length)\<close>
  of each axis into an array of shape \<open>(L, L, L)\<close> with \<open>L = 2 * half_length\<close>, and fails
  when a window leaves the volume.
\<close>

definition volume_sampler :: "tomo_file \<Rightarrow> int \<times> int \<times> int \<Rightarrow> int \<Rightarrow> error + cube" where
  "volume_sampler tomogram c half_length =
     (case (c, tomo_shape tomogram) of ((ci, cj, ck), (ni, nj, nk)) \<Rightarrow>
        if ci - half_length < 0 \<or> int ni < ci + half_length
           \<or> cj - half_length < 0 \<or> int nj < cj + half_length
           \<or> ck - half_length < 0 \<or> int nk < ck + half_length
        then Inl OutOfBoundsError
        else Inr \<lparr>cshape = (nat (2 * half_length), nat (2 * half_length), nat (2 * half_length)),
                  cvals = concat (map (\<lambda>i. concat (map (\<lambda>j. map (\<lambda>k. tomo_data tomogram i j k)
                            [ck - half_length..ck + half_length - 1])
                            [cj - half_length..cj + half_length - 1]))
                            [ci - half_length..ci + half_length - 1])\<rparr>)"

text \<open>
  Modelled from the spec: \<^verbatim>\<open>_process_sub_tomo\<close> of the same module.
  Section 4.3: each task performs the CoordinateMapper and the VolumeSampler and returns
  \<open>(index, cube)\<close>. The spec gives no formula for the voxel centre of a particle
  (section 4.1), so the mapping \<open>mapper position centre size voxel_size\<close> is a parameter.
\<close>

type_synonym coordinate_mapper = "vec3 \<Rightarrow> vec3 \<Rightarrow> vec3 \<Rightarrow> vec3 \<Rightarrow> int \<times> int \<times> int"

definition process_sub_tomo :: "coordinate_mapper \<Rightarrow> 'o task \<Rightarrow> error + (nat \<times> cube)" where
  "process_sub_tomo mapper t =
     (case volume_sampler (t_tomogram t)
             (mapper (t_position t) (t_centre t) (t_size t) (t_voxel_size t)) (t_half_length t) of
        Inl e \<Rightarrow> Inl e
      | Inr c \<Rightarrow> Inr (t_half_index t, c))"

text \<open>
  Modelled from the spec: \<^verbatim>\<open>lazy_map\<close> of the same module. Section 4.3:
  the pool returns the results as they finish, not necessarily in submission order.
  The run of the pool is a list of choices: each names, among the tasks still
  outstanding, the one that finishes next; with no choice left the rest finishes in
  submission order.
\<close>

fun completion_order :: "nat list \<Rightarrow> 'a list \<Rightarrow> 'a list" where
  "completion_order cs [] = []"
| "completion_order [] xs = xs"
| "completion_order (c # cs) (x # xs) =
     (let i = c mod length (x # xs)
      in (x # xs) ! i # completion_order cs (take i (x # xs) @ drop (Suc i) (x # xs)))"

definition lazy_map :: "nat list \<Rightarrow> ('a \<Rightarrow> 'b) \<Rightarrow> 'a list \<Rightarrow> 'b list" where
  "lazy_map run f xs = map f (completion_order run xs)"

text \<open>
  \<^verbatim>\<open>handle.create_dataset("data", (0,) + shape, maxshape=(None,) + shape)\<close>: a dataset
  of no rows; a negative extent is refused.
\<close>

definition create_dataset :: "vec3 \<Rightarrow> int \<times> int \<times> int \<Rightarrow> error + particle_store" where
  "create_dataset vs shape =
     (case shape of (a, b, c) \<Rightarrow>
        if a < 0 \<or> b < 0 \<or> c < 0 then Inl DatasetShapeError
        else Inr \<lparr>voxel_size = vs, cube_shape = (nat a, nat b, nat c), data = []\<rparr>)"

text \<open>\<^verbatim>\<open>data_handle.resize(n, axis=0)\<close>: rows beyond \<open>n\<close> are dropped, new rows are filled with zeros.\<close>

definition resize :: "nat \<Rightarrow> particle_store \<Rightarrow> particle_store" where
  "resize n st =
     st\<lparr>data := take n (data st)
                 @ replicate (n - length (data st)) (replicate (shape_size (cube_shape st)) 0)\<rparr>"

text \<open>
  \<^verbatim>\<open>data_handle[num, :, :, :] = data\<close>. An array of the dataset's cube shape is stored
  as it is; the model refuses every other shape (the library would broadcast some).
\<close>

definition write_row :: "nat \<Rightarrow> cube \<Rightarrow> particle_store \<Rightarrow> error + particle_store" where
  "write_row num d st =
     (if \<not> num < length (data st) then Inl IndexError
      else if cshape d \<noteq> cube_shape st then Inl DatasetShapeError
      else Inr (st\<lparr>data := (data st)[num := cvals d]\<rparr>))"

text \<open>
  Lines 159 to 178: the coordinator's loop over the results. A result that is an error
  is the exception of its task, raised when the result is fetched.
\<close>

fun store_results ::
  "particle_store \<times> nat \<Rightarrow> (error + (nat \<times> cube)) list \<Rightarrow> error + (particle_store \<times> nat)" where
  "store_results (st, num) [] = Inr (st, num)"
| "store_results (st, num) (Inl e # rest) = Inl e"
| "store_results (st, num) (Inr (half_index, d) # rest) =
     (case write_row num d (resize (num + 1) st) of
        Inl e \<Rightarrow> Inl e
      | Inr st' \<Rightarrow> store_results (st', num + 1) rest)"

text \<open>Lines 103 to 178: the body of the loop over the molecules.\<close>

definition extract_molecule ::
  "coordinate_mapper \<Rightarrow> nat list \<Rightarrow> vec3 \<Rightarrow> tomo_file \<Rightarrow> int \<Rightarrow> 'o molecule
     \<Rightarrow> error + particle_store" where
  "extract_molecule mapper run c tomo particle_size m =
     (let vsize = tomo_voxel_size tomo;
          tomo_size = (case (tomo_shape tomo, vsize) of ((s0, s1, s2), (vx, vy, vz)) \<Rightarrow>
                         (real s2 * vx, real s0 * vy, real s1 * vz));
          half_length = half_length_of particle_size (mol_atoms m) vsize;
          box_length = 2 * half_length
      in if length (positions m) \<noteq> length (orientations m)
         then Inl (AssertionError PositionsOrientations)
         else
           let shape = (box_length, box_length, box_length)
           in case sort_by_y (positions m) (orientations m) of
                Inl e \<Rightarrow> Inl e
              | Inr (ps, os) \<Rightarrow>
                  (let indices = [[0..<length ps]]
                   in case create_dataset vsize shape of
                        Inl e \<Rightarrow> Inl e
                      | Inr data_handle \<Rightarrow>
                          (case store_results (data_handle, 0)
                                  (lazy_map run (process_sub_tomo mapper)
                                     (iterate_particles indices ps os c tomo_size half_length
                                        shape vsize tomo)) of
                             Inl e \<Rightarrow> Inl e
                           | Inr (st, num) \<Rightarrow> Inr st)))"

text \<open>
  The loop \<^verbatim>\<open>for name, (atoms, positions, orientations) in sample.iter_molecules()\<close>:
  every iteration opens the particle file anew with mode \<^verbatim>\<open>"w"\<close>, so the file is
  what the last iteration wrote. \<open>file\<close> is the file so far, if any.
\<close>

fun extract_molecules ::
  "coordinate_mapper \<Rightarrow> nat list \<Rightarrow> vec3 \<Rightarrow> tomo_file \<Rightarrow> int \<Rightarrow> particle_store option
     \<Rightarrow> (string \<times> 'o molecule) list \<Rightarrow> error + particle_store option" where
  "extract_molecules mapper run c tomo particle_size file [] = Inr file"
| "extract_molecules mapper run c tomo particle_size file ((name, m) # ms) =
     (case extract_molecule mapper run c tomo particle_size m of
        Inl e \<Rightarrow> Inl e
      | Inr st \<Rightarrow> extract_molecules mapper run c tomo particle_size (Some st) ms)"

text \<open>
  \<^verbatim>\<open>_extract_Config\<close>. The configuration is not read. The result is the particle file
  after the run; \<open>None\<close> is no file written.
\<close>

definition extract_Config ::
  "coordinate_mapper \<Rightarrow> nat list \<Rightarrow> 'o sample \<Rightarrow> tomo_file \<Rightarrow> int \<Rightarrow> error + particle_store option" where
  "extract_Config mapper run smp tomo particle_size =
     (case tomo_voxel_size tomo of (v0, v1, v2) \<Rightarrow>
        if \<not> v0 > 0 then Inl (AssertionError VoxelSizePositive)
        else if \<not> v0 = v1 then Inl (AssertionError VoxelSizeXY)
        else if \<not> v0 = v2 then Inl (AssertionError VoxelSizeXZ)
        else if \<not> number_of_molecules smp = 1 then Inl (AssertionError OneMolecule)
        else extract_molecules mapper run (centre smp) tomo particle_size None (molecules smp))"

subsection \<open>An example run\<close>

text \<open>
  A reconstruction of \<open>4 \<times> 4 \<times> 4\<close> voxels of size 2 whose voxel \<open>(i, j, k)\<close> holds
  \<open>16 i + 4 j + k\<close>, a sample of one species with two particles, and a coordinate
  mapper that divides a position by the voxel size and rounds down.
\<close>

definition demo_tomo :: tomo_file where
  "demo_tomo = \<lparr>tomo_voxel_size = (2, 2, 2), tomo_shape = (4, 4, 4),
                 tomo_data = (\<lambda>i j k. real_of_int (16 * i + 4 * j + k))\<rparr>"

definition demo_mapper :: coordinate_mapper where
  "demo_mapper p c sz vs =
     (case (p, vs) of ((x, y, z), (vx, vy, vz)) \<Rightarrow> (\<lfloor>x / vx\<rfloor>, \<lfloor>y / vy\<rfloor>, \<lfloor>z / vz\<rfloor>))"

definition demo_atoms :: atoms where
  "demo_atoms = \<lparr>x_min = 0, x_max = 12, y_min = 0, y_max = 16, z_min = 5, z_max = 5\<rparr>"

definition demo_sample :: "nat sample" where
  "demo_sample = \<lparr>centre = (4, 4, 4),
     molecules = [(''apoferritin'',
       \<lparr>mol_atoms = demo_atoms,
        positions = [(2, 6, 2), (4, 2, 4)],
        orientations = [10, 20]\<rparr>)]\<rparr>"

text \<open>The particle file of the example run when the second task finishes first.\<close>

definition demo_extracted :: particle_store where
  "demo_extracted = \<lparr>voxel_size = (2, 2, 2), cube_shape = (2, 2, 2),
     data = [[8, 9, 12, 13, 24, 25, 28, 29], [17, 18, 21, 22, 33, 34, 37, 38]]\<rparr>"

section \<open>Properties of average\_extracted\_particles\<close>

subsection \<open>The example generator and the example store\<close>

lemma rot_choice_draws: "draws_without_replacement rot_choice"
  by (auto simp: draws_without_replacement_def rot_choice_def dest: in_set_takeD)

lemma rot_choice_2_5_5: "rot_choice 2 5 5 = ([2, 3, 4, 0, 1], 3)"
  by code_simp

lemma rot_choice_2_5_4: "rot_choice 2 5 4 = ([2, 3, 4, 0], 3)"
  by code_simp

lemma length_demo_store: "length (data demo_store) = 5"
  by (simp add: demo_store_def)




subsection \<open>The draw and the split\<close>

lemma draw_indices_ok:
  assumes c: "draws_without_replacement choice"
    and n: "2 \<le> effective_num_particles np st"
           "effective_num_particles np st \<le> int (length (data st))"
  shows "\<exists>i1 i2 g'. draw_indices choice g st np = Inr ((i1, i2), g')
     \<and> i1 @ i2 = fst (choice g (length (data st)) (nat (effective_num_particles np st)))
     \<and> length i1 = nat (effective_num_particles np st div 2)
     \<and> length i2 = nat (effective_num_particles np st) - nat (effective_num_particles np st div 2)
     \<and> distinct (i1 @ i2) \<and> set (i1 @ i2) \<subseteq> {..<length (data st)}"
proof -
  define m where "m = effective_num_particles np st"
  define N where "N = length (data st)"
  obtain idx g' where ch: "choice g N (nat m) = (idx, g')" by (cases "choice g N (nat m)")
  from n have k: "nat m \<le> N" by (simp add: m_def N_def)
  with c have len: "length idx = nat m" and d: "distinct idx" and s: "set idx \<subseteq> {..<N}"
    using ch unfolding draws_without_replacement_def by (metis fst_conv)+
  have dr: "draw_indices choice g st np
              = Inr ((take (nat (m div 2)) idx, drop (nat (m div 2)) idx), g')"
    using n ch by (simp add: draw_indices_def Let_def m_def[symmetric] N_def[symmetric])
  have h: "nat (m div 2) \<le> nat m" using n by (simp add: m_def)
  let ?i1 = "take (nat (m div 2)) idx" and ?i2 = "drop (nat (m div 2)) idx"
  have app: "?i1 @ ?i2 = idx" by simp
  have "?i1 @ ?i2 = fst (choice g N (nat m))" using ch by simp
  moreover have "length ?i1 = nat (m div 2)" using len h by simp
  moreover have "length ?i2 = nat m - nat (m div 2)" using len by simp
  moreover have "distinct (?i1 @ ?i2)" unfolding app by (rule d)
  moreover have "set (?i1 @ ?i2) \<subseteq> {..<N}" unfolding app by (rule s)
  ultimately show ?thesis
    unfolding m_def[symmetric] N_def[symmetric] using dr by blast
qed

text \<open>
  C2. For a store of \<open>N\<close> particles and \<open>2 \<le> num_particles \<le> N\<close>, the averager draws
  \<open>num_particles\<close> distinct indices below \<open>N\<close> and splits them into two disjoint groups:
  the first \<open>num_particles div 2\<close> indices are half 1 and the remainder is half 2, so
  4 particles give halves of 2 and 2, and 5 particles give halves of 2 and 3.
\<close>

theorem draw_indices_split:
  assumes "draws_without_replacement choice"
    and "2 \<le> n" and "n \<le> int (length (data st))"
  shows "\<exists>half1 half2 g'.
      draw_indices choice g st (Some n) = Inr ((half1, half2), g')
    \<and> half1 @ half2 = fst (choice g (length (data st)) (nat n))
    \<and> length (half1 @ half2) = nat n
    \<and> distinct (half1 @ half2)
    \<and> set (half1 @ half2) \<subseteq> {..<length (data st)}
    \<and> set half1 \<inter> set half2 = {}
    \<and> length half1 = nat (n div 2)
    \<and> length half2 = nat n - nat (n div 2)
    \<and> (n = 4 \<longrightarrow> length half1 = 2 \<and> length half2 = 2)
    \<and> (n = 5 \<longrightarrow> length half1 = 2 \<and> length half2 = 3)"
proof -
  have e: "effective_num_particles (Some n) st = n"
    using assms(2) by (simp add: effective_num_particles_def)
  have "\<exists>i1 i2 g'. draw_indices choice g st (Some n) = Inr ((i1, i2), g')
     \<and> i1 @ i2 = fst (choice g (length (data st)) (nat n))
     \<and> length i1 = nat (n div 2)
     \<and> length i2 = nat n - nat (n div 2)
     \<and> distinct (i1 @ i2) \<and> set (i1 @ i2) \<subseteq> {..<length (data st)}"
    using draw_indices_ok[OF assms(1), of "Some n" st g] assms(2,3) unfolding e by blast
  then obtain i1 i2 g' where
    *: "draw_indices choice g st (Some n) = Inr ((i1, i2), g')"
       "i1 @ i2 = fst (choice g (length (data st)) (nat n))"
       "length i1 = nat (n div 2)" "length i2 = nat n - nat (n div 2)"
       "distinct (i1 @ i2)" "set (i1 @ i2) \<subseteq> {..<length (data st)}"
    by blast
  have "nat (n div 2) \<le> nat n" using assms(2) by simp
  then have "length (i1 @ i2) = nat n" using *(3,4) by simp
  moreover have "set i1 \<inter> set i2 = {}" using *(5) by simp
  moreover have "n = 4 \<longrightarrow> length i1 = 2 \<and> length i2 = 2" using *(3,4) by simp
  moreover have "n = 5 \<longrightarrow> length i1 = 2 \<and> length i2 = 3" using *(3,4) by simp
  ultimately show ?thesis using * by blast
qed

theorem draw_indices_split_witness:
  "draws_without_replacement rot_choice
   \<and> (2::int) \<le> 5 \<and> (5::int) \<le> int (length (data demo_store))
   \<and> draw_indices rot_choice 2 demo_store (Some 5) = Inr (([2, 3], [4, 0, 1]), 3)
   \<and> (4::int) \<le> int (length (data demo_store))
   \<and> draw_indices rot_choice 2 demo_store (Some 4) = Inr (([2, 3], [4, 0]), 3)"
proof -
  note l = length_demo_store
  have a: "(2::int) \<le> 5" "(5::int) \<le> int (length (data demo_store))" by (simp_all add: l)
  have b: "(2::int) \<le> 4" "(4::int) \<le> int (length (data demo_store))" by (simp_all add: l)
  from draw_indices_split[OF rot_choice_draws a, of 2] obtain h1 h2 g' where
    5: "draw_indices rot_choice 2 demo_store (Some 5) = Inr ((h1, h2), g')"
       "h1 @ h2 = fst (rot_choice 2 (length (data demo_store)) (nat 5))" "length h1 = 2"
    by auto
  from draw_indices_split[OF rot_choice_draws b, of 2] obtain k1 k2 g'' where
    4: "draw_indices rot_choice 2 demo_store (Some 4) = Inr ((k1, k2), g'')"
       "k1 @ k2 = fst (rot_choice 2 (length (data demo_store)) (nat 4))" "length k1 = 2"
    by auto
  have "h1 = [2, 3] \<and> h2 = [4, 0, 1]"
    using 5(2,3) unfolding l by (cases h1; cases "tl h1") (auto simp: rot_choice_2_5_5)
  moreover have "k1 = [2, 3] \<and> k2 = [4, 0]"
    using 4(2,3) unfolding l by (cases k1; cases "tl k1") (auto simp: rot_choice_2_5_4)
  moreover have "g' = 3"
    using 5(1) by (simp add: draw_indices_def effective_num_particles_def l rot_choice_2_5_5)
  moreover have "g'' = 3"
    using 4(1) by (simp add: draw_indices_def effective_num_particles_def l rot_choice_2_5_4)
  ultimately show ?thesis using rot_choice_draws a b 5(1) 4(1) by simp
qed

subsection \<open>The two means\<close>





subsection \<open>The two assertions\<close>

text \<open>
  C4. Whenever the effective number of particles has \<open>num_particles div 2 = 0\<close>, the
  averager fails on its assertion \<^verbatim>\<open>half_num_particles > 0\<close> and writes nothing; a
  request for one particle does so on every store.
\<close>

theorem insufficient_particles:
  "(effective_num_particles np st div 2 = 0 \<longrightarrow>
      average_extracted_particles choice w st np = Inl (AssertionError HalfNumParticlesPositive))
   \<and> average_extracted_particles choice w st (Some 1)
       = Inl (AssertionError HalfNumParticlesPositive)"
  by (simp add: average_extracted_particles_def draw_indices_def effective_num_particles_def
        Let_def)

theorem insufficient_particles_witness:
  "effective_num_particles (Some 1) demo_store div 2 = 0
   \<and> average_extracted_particles rot_choice \<lparr>py_random = 0, np_random = 2\<rparr> demo_store (Some 1)
       = Inl (AssertionError HalfNumParticlesPositive)"
  using insufficient_particles[of "Some 1" demo_store rot_choice "\<lparr>py_random = 0, np_random = 2\<rparr>"]
  by (simp add: effective_num_particles_def)



subsection \<open>The seed\<close>

text \<open>
  C1. The averager is not a function of the seed and the store: the module seeds the
  generator of Python's \<^verbatim>\<open>random\<close>, and the indices are drawn from the generator of
  \<^verbatim>\<open>numpy.random\<close>, which nothing seeds. Two runs after the same
  \<^verbatim>\<open>random.seed(0)\<close>, on the same store, that find the numpy generator in different
  states write different half maps.
\<close>

theorem average_depends_on_numpy_state:
  "py_random (module_import \<lparr>py_random = 7, np_random = 0\<rparr>)
     = py_random (module_import \<lparr>py_random = 9, np_random = Suc 0\<rparr>)
   \<and> average_extracted_particles rot_choice (module_import \<lparr>py_random = 7, np_random = 0\<rparr>)
        demo_store (Some 2)
       = Inr ((\<lparr>map_shape = (1, 1, 2), map_data = [0, 10], map_voxel_size = (2, 2, 2)\<rparr>,
               \<lparr>map_shape = (1, 1, 2), map_data = [1, 11], map_voxel_size = (2, 2, 2)\<rparr>),
              \<lparr>py_random = 0, np_random = Suc 0\<rparr>)
   \<and> average_extracted_particles rot_choice (module_import \<lparr>py_random = 9, np_random = Suc 0\<rparr>)
        demo_store (Some 2)
       = Inr ((\<lparr>map_shape = (1, 1, 2), map_data = [1, 11], map_voxel_size = (2, 2, 2)\<rparr>,
               \<lparr>map_shape = (1, 1, 2), map_data = [2, 12], map_voxel_size = (2, 2, 2)\<rparr>),
              \<lparr>py_random = 0, np_random = 2\<rparr>)
   \<and> map_sum id fst (average_extracted_particles rot_choice
          (module_import \<lparr>py_random = 7, np_random = 0\<rparr>) demo_store (Some 2))
       \<noteq> map_sum id fst (average_extracted_particles rot_choice
          (module_import \<lparr>py_random = 9, np_random = Suc 0\<rparr>) demo_store (Some 2))"
proof -
  have c0: "rot_choice 0 5 2 = ([0, 1], Suc 0)" by code_simp
  have c1: "rot_choice (Suc 0) 5 2 = ([1, 2], 2)" by code_simp
  have d0: "draw_indices rot_choice 0 demo_store (Some 2) = Inr (([0], [1]), Suc 0)"
    by (simp add: draw_indices_def effective_num_particles_def length_demo_store c0)
  have d1: "draw_indices rot_choice (Suc 0) demo_store (Some 2) = Inr (([1], [2]), 2)"
    by (simp add: draw_indices_def effective_num_particles_def length_demo_store c1)
  show ?thesis
    by (simp add: average_extracted_particles_def module_import_def random_seed_def d0 d1)
       (simp add: demo_store_def shape_size_def divide_half_def save_half_def Let_def
          numeral_2_eq_2)
qed

section \<open>Properties of \_extract\_Config\<close>

subsection \<open>The half length\<close>




subsection \<open>The sort\<close>

lemma sort_by_y_Inr:
  assumes "sort_by_y ps os = Inr (ps', os')"
  shows "zip ps' os' = sort_key (\<lambda>x. fst (snd (fst x))) (zip ps os)
         \<and> length ps' = length os' \<and> length ps' = min (length ps) (length os) \<and> ps' \<noteq> []"
proof -
  let ?srt = "sort_key (\<lambda>x. fst (snd (fst x))) (zip ps os)"
  from assms have ne: "?srt \<noteq> []" and p: "ps' = map fst ?srt" and o: "os' = map snd ?srt"
    by (auto simp: sort_by_y_def split: list.splits)
  have "zip ps' os' = ?srt" unfolding p o by (simp add: zip_map_fst_snd)
  moreover have "length ps' = min (length ps) (length os)" unfolding p by simp
  moreover have "length os' = min (length ps) (length os)" unfolding o by simp
  moreover have "ps' \<noteq> []" using ne p by simp
  ultimately show ?thesis by simp
qed



subsection \<open>The pool, the tasks and the coordinator's loop\<close>

lemma mset_completion_order: "mset (completion_order cs xs) = mset xs"
proof (induction cs xs rule: completion_order.induct)
  case (3 c cs x xs)
  let ?ys = "x # xs"
  let ?i = "c mod length ?ys"
  have i: "?i < length ?ys" by simp
  have "?ys = take ?i ?ys @ ?ys ! ?i # drop (Suc ?i) ?ys"
    using i by (rule id_take_nth_drop)
  then have "mset ?ys = mset (take ?i ?ys @ drop (Suc ?i) ?ys) + {#?ys ! ?i#}"
    by (metis add_mset_add_single mset.simps(2) mset_append union_mset_add_mset_right)
  with 3 show ?case by (simp add: Let_def del: take_Cons' drop_Cons' nth_Cons')
qed simp_all

lemma length_completion_order: "length (completion_order cs xs) = length xs"
  by (metis mset_completion_order size_mset)

lemma length_concat_const:
  "(\<And>x. x \<in> set xs \<Longrightarrow> length (f x) = n) \<Longrightarrow> length (concat (map f xs)) = length xs * n"
  by (induction xs) simp_all

lemma volume_sampler_Inr:
  assumes "volume_sampler tomo c h = Inr d"
  shows "cshape d = (nat (2 * h), nat (2 * h), nat (2 * h)) \<and> length (cvals d) = shape_size (cshape d)"
proof -
  obtain ci cj ck where c: "c = (ci, cj, ck)" by (cases c)
  obtain ni nj nk where n: "tomo_shape tomo = (ni, nj, nk)" by (cases "tomo_shape tomo")
  let ?r = "\<lambda>x. [x - h..x + h - 1]"
  have lr: "\<And>x. length (?r x) = nat (2 * h)" by simp
  have d: "d = \<lparr>cshape = (nat (2 * h), nat (2 * h), nat (2 * h)),
                cvals = concat (map (\<lambda>i. concat (map (\<lambda>j. map (\<lambda>k. tomo_data tomo i j k)
                            (?r ck)) (?r cj))) (?r ci))\<rparr>"
    using assms unfolding volume_sampler_def c n by (simp split: if_splits)
  have 1: "\<And>i j. length (map (\<lambda>k. tomo_data tomo i j k) (?r ck)) = nat (2 * h)"
    by simp
  have 2: "\<And>i. length (concat (map (\<lambda>j. map (\<lambda>k. tomo_data tomo i j k) (?r ck)) (?r cj)))
             = nat (2 * h) * nat (2 * h)"
    by (subst length_concat_const[where n = "nat (2 * h)"]) simp_all
  have 3: "length (concat (map (\<lambda>i. concat (map (\<lambda>j. map (\<lambda>k. tomo_data tomo i j k)
                            (?r ck)) (?r cj))) (?r ci))) = nat (2 * h) * (nat (2 * h) * nat (2 * h))"
    by (subst length_concat_const[where n = "nat (2 * h) * nat (2 * h)"]) (simp_all only: 2 lr)
  show ?thesis unfolding d using 3 by (simp add: shape_size_def)
qed

lemma process_sub_tomo_Inr:
  "process_sub_tomo mapper t = Inr (i, d) \<Longrightarrow>
     cshape d = (nat (2 * t_half_length t), nat (2 * t_half_length t), nat (2 * t_half_length t))
     \<and> length (cvals d) = shape_size (cshape d)"
  by (auto simp: process_sub_tomo_def split: sum.splits dest: volume_sampler_Inr)

lemma process_sub_tomo_Inl:
  "process_sub_tomo mapper t = Inl e \<Longrightarrow> e = OutOfBoundsError"
  by (auto simp: process_sub_tomo_def volume_sampler_def split: sum.splits prod.splits if_splits)

lemma store_results_Inr:
  "store_results (st, num) rs = Inr (st', num') \<Longrightarrow>
   num = length (data st) \<Longrightarrow> store_wf st \<Longrightarrow>
   \<forall>i d. Inr (i, d) \<in> set rs \<longrightarrow> length (cvals d) = shape_size (cshape d) \<Longrightarrow>
   length (data st') = length (data st) + length rs \<and> num' = length (data st')
   \<and> cube_shape st' = cube_shape st \<and> voxel_size st' = voxel_size st \<and> store_wf st'"
proof (induction "(st, num)" rs arbitrary: st num rule: store_results.induct)
  case (1 st num)
  then show ?case by auto
next
  case (2 st num e rest)
  then show ?case by simp
next
  case (3 st num half_index d rest)
  from "3.prems"(1) obtain st1 where
    w: "write_row num d (resize (num + 1) st) = Inr st1"
    and r: "store_results (st1, num + 1) rest = Inr (st', num')"
    by (auto split: sum.splits)
  from w have sh: "cshape d = cube_shape st" 
    and st1: "st1 = (resize (num + 1) st)\<lparr>data := (data (resize (num + 1) st))[num := cvals d]\<rparr>"
    by (auto simp: write_row_def resize_def split: if_splits)
  have ld: "length (cvals d) = shape_size (cube_shape st)"
    using "3.prems"(4) sh by auto
  have l1: "length (data st1) = length (data st) + 1"
    using "3.prems"(2) by (simp add: st1 resize_def)
  have wf1: "store_wf st1"
    using "3.prems"(2,3) ld
    by (auto simp: st1 resize_def store_wf_def list_all_iff dest!: set_update_subset_insert[THEN subsetD])
  have s1: "cube_shape st1 = cube_shape st" "voxel_size st1 = voxel_size st"
    by (simp_all add: st1 resize_def)
  have "length (data st') = length (data st1) + length rest \<and> num' = length (data st')
   \<and> cube_shape st' = cube_shape st1 \<and> voxel_size st' = voxel_size st1 \<and> store_wf st'"
    using "3.hyps"[OF w r _ wf1] l1 "3.prems"(2,4) by simp
  then show ?case using l1 s1 by simp
qed

lemma store_results_Inl:
  "store_results (st, num) rs = Inl e \<Longrightarrow>
   Inl e \<in> set rs \<or> e = IndexError \<or> e = DatasetShapeError"
proof (induction "(st, num)" rs arbitrary: st num rule: store_results.induct)
  case (3 st num half_index d rest)
  then show ?case
    by (auto simp: write_row_def split: sum.splits if_splits)
qed simp_all

lemma iterate_particles_single:
  "iterate_particles [idxs] ps os c sz h shape vs tomo =
     map (\<lambda>particle_index.
          \<lparr>t_half_index = 0, t_position = ps ! particle_index,
           t_orientation = os ! particle_index, t_centre = c, t_size = sz,
           t_half_length = h, t_shape = shape, t_voxel_size = vs,
           t_tomogram = tomo\<rparr>) idxs"
  by (simp add: iterate_particles_def)

lemma create_dataset_Inr:
  "create_dataset vs (a, b, c) = Inr st \<Longrightarrow>
     0 \<le> a \<and> 0 \<le> b \<and> 0 \<le> c \<and> st = \<lparr>voxel_size = vs, cube_shape = (nat a, nat b, nat c), data = []\<rparr>"
  by (auto simp: create_dataset_def split: if_splits)

lemma extract_molecule_Inr:
  assumes "extract_molecule mapper run c tomo particle_size m = Inr st"
  shows "length (data st) = length (positions m)
    \<and> length (positions m) = length (orientations m)
    \<and> 0 \<le> half_length_of particle_size (mol_atoms m) (tomo_voxel_size tomo)
    \<and> cube_shape st = (nat (2 * half_length_of particle_size (mol_atoms m) (tomo_voxel_size tomo)),
                       nat (2 * half_length_of particle_size (mol_atoms m) (tomo_voxel_size tomo)),
                       nat (2 * half_length_of particle_size (mol_atoms m) (tomo_voxel_size tomo)))
    \<and> voxel_size st = tomo_voxel_size tomo
    \<and> store_wf st"
proof -
  define h where "h = half_length_of particle_size (mol_atoms m) (tomo_voxel_size tomo)"
  define sz where "sz = (case (tomo_shape tomo, tomo_voxel_size tomo) of
      ((s0, s1, s2), (vx, vy, vz)) \<Rightarrow> (real s2 * vx, real s0 * vy, real s1 * vz))"
  from assms obtain ps os hd num where
    len: "length (positions m) = length (orientations m)"
    and srt: "sort_by_y (positions m) (orientations m) = Inr (ps, os)"
    and cr: "create_dataset (tomo_voxel_size tomo) (2 * h, 2 * h, 2 * h) = Inr hd"
    and sr: "store_results (hd, 0)
               (lazy_map run (process_sub_tomo mapper)
                  (iterate_particles [[0..<length ps]] ps os c sz h (2 * h, 2 * h, 2 * h)
                     (tomo_voxel_size tomo) tomo)) = Inr (st, num)"
    unfolding extract_molecule_def Let_def h_def[symmetric] sz_def[symmetric]
    by (auto split: if_splits sum.splits prod.splits)
  let ?tasks = "iterate_particles [[0..<length ps]] ps os c sz h (2 * h, 2 * h, 2 * h)
                     (tomo_voxel_size tomo) tomo"
  let ?rs = "lazy_map run (process_sub_tomo mapper) ?tasks"
  from create_dataset_Inr[OF cr] have h0: "0 \<le> h"
    and hd: "hd = \<lparr>voxel_size = tomo_voxel_size tomo,
                   cube_shape = (nat (2 * h), nat (2 * h), nat (2 * h)), data = []\<rparr>"
    by simp_all
  have lps: "length ps = length (positions m)"
    using sort_by_y_Inr[OF srt] len by simp
  have lt: "length ?tasks = length ps" by (simp add: iterate_particles_single)
  have lrs: "length ?rs = length (positions m)"
    by (simp add: lazy_map_def length_completion_order iterate_particles_single lps)
  have wf0: "store_wf hd" by (simp add: hd store_wf_def)
  have cubes: "\<forall>i d. Inr (i, d) \<in> set ?rs \<longrightarrow> length (cvals d) = shape_size (cshape d)"
    by (auto simp: lazy_map_def dest: process_sub_tomo_Inr[OF sym])
  from store_results_Inr[OF sr _ wf0 cubes]
  have "length (data st) = length ?rs" "cube_shape st = cube_shape hd"
    "voxel_size st = voxel_size hd" "store_wf st"
    by (simp_all add: hd)
  then show ?thesis
    unfolding h_def[symmetric] using lrs len h0 by (simp add: hd)
qed

lemma extract_molecule_Inl:
  assumes "extract_molecule mapper run c tomo particle_size m = Inl e"
  shows "e \<in> {AssertionError PositionsOrientations, ValueError, DatasetShapeError,
              IndexError, OutOfBoundsError}"
proof -
  have sort: "\<And>x. sort_by_y (positions m) (orientations m) = Inl x \<Longrightarrow> x = ValueError"
    by (auto simp: sort_by_y_def split: list.splits)
  have cr: "\<And>vs sh x. create_dataset vs sh = Inl x \<Longrightarrow> x = DatasetShapeError"
    by (auto simp: create_dataset_def split: prod.splits if_splits)
  have sr: "\<And>hd ts x. store_results (hd, 0) (lazy_map run (process_sub_tomo mapper) ts) = Inl x
     \<Longrightarrow> x \<in> {DatasetShapeError, IndexError, OutOfBoundsError}"
    by (auto simp: lazy_map_def dest!: store_results_Inl dest: process_sub_tomo_Inl[OF sym])
  from assms show ?thesis
    unfolding extract_molecule_def Let_def
    by (auto split: if_splits sum.splits prod.splits dest: sort cr sr)
qed

lemma extract_Config_cases:
  obtains (assert) a where "a \<in> {VoxelSizePositive, VoxelSizeXY, VoxelSizeXZ, OneMolecule}"
      "extract_Config mapper run smp tomo particle_size = Inl (AssertionError a)"
      "\<not> (number_of_molecules smp = 1 \<and> 0 < fst (tomo_voxel_size tomo)
          \<and> fst (tomo_voxel_size tomo) = fst (snd (tomo_voxel_size tomo))
          \<and> fst (tomo_voxel_size tomo) = snd (snd (tomo_voxel_size tomo)))"
  | (run) name m where "molecules smp = [(name, m)]"
      "0 < fst (tomo_voxel_size tomo)"
      "fst (tomo_voxel_size tomo) = fst (snd (tomo_voxel_size tomo))"
      "fst (tomo_voxel_size tomo) = snd (snd (tomo_voxel_size tomo))"
      "extract_Config mapper run smp tomo particle_size =
         map_sum id Some (extract_molecule mapper run (centre smp) tomo particle_size m)"
proof -
  obtain v0 v1 v2 where v: "tomo_voxel_size tomo = (v0, v1, v2)" by (cases "tomo_voxel_size tomo")
  show ?thesis
  proof (cases "number_of_molecules smp = 1 \<and> 0 < v0 \<and> v0 = v1 \<and> v0 = v2")
    case False
    then have "\<exists>a\<in>{VoxelSizePositive, VoxelSizeXY, VoxelSizeXZ, OneMolecule}.
       extract_Config mapper run smp tomo particle_size = Inl (AssertionError a)"
      by (auto simp: extract_Config_def v)
    with False show ?thesis using assert v by auto
  next
    case True
    then have "length (molecules smp) = 1" by (simp add: number_of_molecules_def)
    then obtain nm where nm: "molecules smp = [nm]"
      by (cases "molecules smp") auto
    obtain name m where "nm = (name, m)" by (cases nm)
    with nm have ms: "molecules smp = [(name, m)]" by simp
    have "extract_Config mapper run smp tomo particle_size =
         map_sum id Some (extract_molecule mapper run (centre smp) tomo particle_size m)"
      using True by (simp add: extract_Config_def v ms split: sum.splits)
    with True ms show ?thesis using run v by simp
  qed
qed

subsection \<open>The example run\<close>

lemma half_length_demo: "half_length_of 2 demo_atoms (2, 2, 2) = 1"
  by (simp add: half_length_of_def)

lemma volume_sampler_demo:
  "volume_sampler demo_tomo (2, 1, 2) 1
     = Inr \<lparr>cshape = (2, 2, 2), cvals = [17, 18, 21, 22, 33, 34, 37, 38]\<rparr>"
  "volume_sampler demo_tomo (1, 3, 1) 1
     = Inr \<lparr>cshape = (2, 2, 2), cvals = [8, 9, 12, 13, 24, 25, 28, 29]\<rparr>"
  by (simp_all add: volume_sampler_def demo_tomo_def upto_rec1 numeral_2_eq_2)

lemma completion_order_swap: "completion_order [3] [a, b] = [b, a]"
proof -
  have "(3::nat) mod length [a, b] = Suc 0" by (simp add: numeral_3_eq_3 mod_Suc)
  then show ?thesis by (simp add: Let_def)
qed

lemma demo_molecule:
  "extract_molecule demo_mapper [3] (4, 4, 4) demo_tomo 2
     \<lparr>mol_atoms = demo_atoms, positions = [(2, 6, 2), (4, 2, 4)], orientations = [10, 20 :: nat]\<rparr>
   = Inr demo_extracted"
proof -
  have v: "tomo_voxel_size demo_tomo = (2, 2, 2)" "tomo_shape demo_tomo = (4, 4, 4)"
    by (simp_all add: demo_tomo_def)
  have s: "sort_by_y [(2, 6, 2), (4, 2, 4)] [10, 20 :: nat] = Inr ([(4, 2, 4), (2, 6, 2)], [20, 10])"
    by (simp add: sort_by_y_def)
  have u: "[0..<2] = [0, 1]" by (simp add: upt_rec)
  have m: "demo_mapper (4, 2, 4) c sz (2, 2, 2) = (2, 1, 2)"
          "demo_mapper (2, 6, 2) c sz (2, 2, 2) = (1, 3, 1)" for c sz
    by (simp_all add: demo_mapper_def)
  show ?thesis
    by (simp add: extract_molecule_def Let_def v half_length_demo s u iterate_particles_single
          lazy_map_def completion_order_swap process_sub_tomo_def m volume_sampler_demo create_dataset_def
          resize_def write_row_def shape_size_def demo_extracted_def
        del: completion_order.simps)
qed

lemma demo_extraction:
  "extract_Config demo_mapper [3] demo_sample demo_tomo 2 = Inr (Some demo_extracted)"
proof -
  have v: "tomo_voxel_size demo_tomo = (2, 2, 2)" by (simp add: demo_tomo_def)
  show ?thesis
    by (simp add: extract_Config_def v number_of_molecules_def demo_sample_def demo_molecule)
qed

subsection \<open>The particle file after a run\<close>

text \<open>
  C6. After a run that completes, the sample has one species and the particle file has
  as many rows as that species has particles; one step of the coordinator's loop
  (resize to \<open>num + 1\<close>, write row \<open>num\<close>) makes the file one row longer.
\<close>

theorem store_length:
  assumes "extract_Config mapper run smp tomo particle_size = Inr file"
  shows "(\<exists>name m st. molecules smp = [(name, m)] \<and> file = Some st
            \<and> length (data st) = length (positions m))
       \<and> (num = length (data st0) \<and> write_row num d (resize (num + 1) st0) = Inr st1
            \<longrightarrow> length (data st1) = length (data st0) + 1)"
proof
  show "\<exists>name m st. molecules smp = [(name, m)] \<and> file = Some st
            \<and> length (data st) = length (positions m)"
  proof (cases rule: extract_Config_cases[of mapper run smp tomo particle_size])
    case (assert a)
    with assms show ?thesis by simp
  next
    case (run name m)
    with assms obtain st where
      "extract_molecule mapper run (centre smp) tomo particle_size m = Inr st" "file = Some st"
      by (cases "extract_molecule mapper run (centre smp) tomo particle_size m") auto
    with run(1) extract_molecule_Inr[OF this(1)] show ?thesis by simp
  qed
  show "num = length (data st0) \<and> write_row num d (resize (num + 1) st0) = Inr st1
            \<longrightarrow> length (data st1) = length (data st0) + 1"
    by (auto simp: write_row_def resize_def split: if_splits)
qed

theorem store_length_witness:
  "extract_Config demo_mapper [3] demo_sample demo_tomo 2 = Inr (Some demo_extracted)
   \<and> molecules demo_sample = [(''apoferritin'',
       \<lparr>mol_atoms = demo_atoms, positions = [(2, 6, 2), (4, 2, 4)], orientations = [10, 20]\<rparr>)]
   \<and> length (data demo_extracted) = 2
   \<and> 5 = length (data demo_store)
   \<and> write_row 5 \<lparr>cshape = (1, 1, 2), cvals = [5, 15]\<rparr> (resize (5 + 1) demo_store)
       = Inr (demo_store\<lparr>data := data demo_store @ [[5, 15]]\<rparr>)
   \<and> length (data (demo_store\<lparr>data := data demo_store @ [[5, 15]]\<rparr>)) = length (data demo_store) + 1"
proof -
  have w: "write_row 5 \<lparr>cshape = (1, 1, 2), cvals = [5, 15]\<rparr> (resize (5 + 1) demo_store)
       = Inr (demo_store\<lparr>data := data demo_store @ [[5, 15]]\<rparr>)"
    by (simp add: write_row_def resize_def demo_store_def shape_size_def)
  from store_length[OF demo_extraction, of 5 demo_store "\<lparr>cshape = (1, 1, 2), cvals = [5, 15]\<rparr>"
      "demo_store\<lparr>data := data demo_store @ [[5, 15]]\<rparr>"] w demo_extraction
  show ?thesis by (simp add: demo_sample_def demo_extracted_def length_demo_store)
qed

text \<open>
  C8. After a run that completes, the cubes of the particle file have the shape
  \<open>(L, L, L)\<close> with \<open>L = 2 * half_length\<close> of the species, and every row holds
  \<open>L * L * L\<close> elements.
\<close>

theorem stored_cube_shape:
  assumes "extract_Config mapper run smp tomo particle_size = Inr file"
  shows "\<exists>name m st L. molecules smp = [(name, m)] \<and> file = Some st
      \<and> L = 2 * half_length_of particle_size (mol_atoms m) (tomo_voxel_size tomo)
      \<and> 0 \<le> L
      \<and> cube_shape st = (nat L, nat L, nat L)
      \<and> (\<forall>c\<in>set (data st). length c = nat L * nat L * nat L)"
proof (cases rule: extract_Config_cases[of mapper run smp tomo particle_size])
  case (assert a)
  with assms show ?thesis by simp
next
  case (run name m)
  with assms obtain st where
    st: "extract_molecule mapper run (centre smp) tomo particle_size m = Inr st" "file = Some st"
    by (cases "extract_molecule mapper run (centre smp) tomo particle_size m") auto
  from extract_molecule_Inr[OF st(1)] have
    "0 \<le> half_length_of particle_size (mol_atoms m) (tomo_voxel_size tomo)"
    "cube_shape st = (nat (2 * half_length_of particle_size (mol_atoms m) (tomo_voxel_size tomo)),
                       nat (2 * half_length_of particle_size (mol_atoms m) (tomo_voxel_size tomo)),
                       nat (2 * half_length_of particle_size (mol_atoms m) (tomo_voxel_size tomo)))"
    "store_wf st" by simp_all
  then show ?thesis using run(1) st(2)
    by (simp add: store_wf_def list_all_iff shape_size_def)
qed

theorem stored_cube_shape_witness:
  "extract_Config demo_mapper [3] demo_sample demo_tomo 2 = Inr (Some demo_extracted)
   \<and> 2 * half_length_of 2 demo_atoms (tomo_voxel_size demo_tomo) = 2
   \<and> cube_shape demo_extracted = (2, 2, 2)
   \<and> map length (data demo_extracted) = [8, 8]"
  using stored_cube_shape[OF demo_extraction] demo_extraction
  by (simp add: demo_extracted_def demo_tomo_def half_length_demo)

subsection \<open>The assertions on the inputs\<close>

text \<open>
  C10. Unless the sample has exactly one species and the voxel size of the
  reconstruction is positive and the same on the three axes, the extraction fails on one
  of its first four assertions; when these conditions hold, none of the four fails.
\<close>

theorem extraction_assertions:
  assumes "tomo_voxel_size tomo = (vx, vy, vz)"
  shows "(\<not> (number_of_molecules smp = 1 \<and> 0 < vx \<and> vx = vy \<and> vx = vz) \<longrightarrow>
           (\<exists>a\<in>{VoxelSizePositive, VoxelSizeXY, VoxelSizeXZ, OneMolecule}.
              extract_Config mapper run smp tomo particle_size = Inl (AssertionError a)))
       \<and> (number_of_molecules smp = 1 \<and> 0 < vx \<and> vx = vy \<and> vx = vz \<longrightarrow>
           (\<forall>a\<in>{VoxelSizePositive, VoxelSizeXY, VoxelSizeXZ, OneMolecule}.
              extract_Config mapper run smp tomo particle_size \<noteq> Inl (AssertionError a)))"
proof (cases rule: extract_Config_cases[of mapper run smp tomo particle_size])
  case (assert a)
  then show ?thesis using assms by auto
next
  case (run name m)
  have pre: "number_of_molecules smp = 1 \<and> 0 < vx \<and> vx = vy \<and> vx = vz"
    using run(1-4) assms by (simp add: number_of_molecules_def)
  have "extract_Config mapper run smp tomo particle_size \<noteq> Inl (AssertionError a)"
    if "a \<in> {VoxelSizePositive, VoxelSizeXY, VoxelSizeXZ, OneMolecule}" for a
  proof
    assume "extract_Config mapper run smp tomo particle_size = Inl (AssertionError a)"
    then have "extract_molecule mapper run (centre smp) tomo particle_size m = Inl (AssertionError a)"
      unfolding run(5)
      by (cases "extract_molecule mapper run (centre smp) tomo particle_size m") auto
    from extract_molecule_Inl[OF this] that show False by auto
  qed
  with pre show ?thesis by blast
qed

theorem extraction_assertions_witness:
  "tomo_voxel_size demo_tomo = (2, 2, 2)
   \<and> number_of_molecules demo_sample = 1
   \<and> extract_Config demo_mapper [3] demo_sample demo_tomo 2 = Inr (Some demo_extracted)
   \<and> tomo_voxel_size (demo_tomo\<lparr>tomo_voxel_size := (2, 2, 1)\<rparr>) = (2, 2, 1)
   \<and> extract_Config demo_mapper [3] demo_sample (demo_tomo\<lparr>tomo_voxel_size := (2, 2, 1)\<rparr>) 2
       = Inl (AssertionError VoxelSizeXZ)
   \<and> number_of_molecules (demo_sample\<lparr>molecules := []\<rparr>) = 0
   \<and> extract_Config demo_mapper [3] (demo_sample\<lparr>molecules := []\<rparr>) demo_tomo 2
       = Inl (AssertionError OneMolecule)"
proof -
  have v: "tomo_voxel_size demo_tomo = (2, 2, 2)" by (simp add: demo_tomo_def)
  have v': "tomo_voxel_size (demo_tomo\<lparr>tomo_voxel_size := (2, 2, 1)\<rparr>) = (2, 2, 1)" by simp
  have n: "number_of_molecules demo_sample = 1"
    by (simp add: number_of_molecules_def demo_sample_def)
  have a: "extract_Config demo_mapper [3] demo_sample (demo_tomo\<lparr>tomo_voxel_size := (2, 2, 1)\<rparr>) 2
       = Inl (AssertionError VoxelSizeXZ)"
    using extraction_assertions[OF v', of demo_sample demo_mapper "[3]" 2]
    by (simp add: extract_Config_def)
  have b: "extract_Config demo_mapper [3] (demo_sample\<lparr>molecules := []\<rparr>) demo_tomo 2
       = Inl (AssertionError OneMolecule)"
    using extraction_assertions[OF v, of "demo_sample\<lparr>molecules := []\<rparr>" demo_mapper "[3]" 2]
    by (simp add: extract_Config_def v number_of_molecules_def)
  from extraction_assertions[OF v, of demo_sample demo_mapper "[3]" 2] v v' n a b demo_extraction
  show ?thesis by (simp add: number_of_molecules_def)
qed

end
